theory Spec2Isabelle
  imports Main "HOL-Library.Word"
begin

section \<open>JavaScript strings\<close>

text \<open>
  A JavaScript string is a sequence of 16-bit code units. Literals of the source are
  written \<open>js ''...''\<close>: every ASCII character becomes the code unit of the same number.
\<close>

type_synonym code_unit = "16 word"
type_synonym jsstring = "code_unit list"

definition js :: "string \<Rightarrow> jsstring" where
  "js s = map (\<lambda>c. of_nat (of_char c)) s"

text \<open>
  \<^verbatim>\<open>String.prototype.trim\<close> removes the WhiteSpace and LineTerminator code points of
  ECMAScript from both ends: TAB, LF, VT, FF, CR, SP, NBSP, U+1680, U+2000 to U+200A,
  U+2028, U+2029, U+202F, U+205F, U+3000 and U+FEFF.
\<close>

definition is_js_space :: "code_unit \<Rightarrow> bool" where
  "is_js_space c \<longleftrightarrow>
     c \<in> {0x0009, 0x000A, 0x000B, 0x000C, 0x000D, 0x0020, 0x00A0, 0x1680,
          0x2000, 0x2001, 0x2002, 0x2003, 0x2004, 0x2005, 0x2006, 0x2007, 0x2008,
          0x2009, 0x200A, 0x2028, 0x2029, 0x202F, 0x205F, 0x3000, 0xFEFF}"

definition js_trim :: "jsstring \<Rightarrow> jsstring" where
  "js_trim s = rev (dropWhile is_js_space (rev (dropWhile is_js_space s)))"

text \<open>
  A value that is a string or \<^verbatim>\<open>undefined\<close> is a \<open>jsstring option\<close>. It is truthy when
  it is a non-empty string.
\<close>

definition truthy :: "jsstring option \<Rightarrow> bool" where
  "truthy v = (case v of None \<Rightarrow> False | Some s \<Rightarrow> s \<noteq> [])"

section \<open>The Git identity of the user (user.ts)\<close>

text \<open>
  The module holds two maps, \<^verbatim>\<open>nameCache\<close> and \<^verbatim>\<open>emailCache\<close>, from the working
  directory to a string. The state of the model adds the calls made to the shell, in
  order: \<^verbatim>\<open>shell.which\<close> searches the path, \<^verbatim>\<open>shell.exec\<close> starts a subprocess.
\<close>

datatype shell_call = Which jsstring | Exec jsstring

record user_state =
  nameCache :: "jsstring \<rightharpoonup> jsstring"
  emailCache :: "jsstring \<rightharpoonup> jsstring"
  shell_log :: "shell_call list"

text \<open>
  What a call finds outside the program: the working directory of the process, whether
  \<^verbatim>\<open>shell.which\<close> finds an executable, and the captured output of a command.
  The world may change from one call to the next.
\<close>

record world =
  cwd :: jsstring
  which :: "jsstring \<Rightarrow> bool"
  exec_stdout :: "jsstring \<Rightarrow> jsstring"

definition git_name :: "'a world_scheme \<Rightarrow> user_state \<Rightarrow> jsstring option \<times> user_state" where
  "git_name w s =
     (let name = nameCache s (cwd w) in
      if truthy name then (name, s)
      else
        let s1 = s\<lparr>shell_log := shell_log s @ [Which (js ''git'')]\<rparr> in
        if which w (js ''git'') then
          let name' = js_trim (exec_stdout w (js ''git config --get user.name''));
              s2 = s1\<lparr>shell_log := shell_log s1 @ [Exec (js ''git config --get user.name'')]\<rparr>
          in (Some name', s2\<lparr>nameCache := (nameCache s2)(cwd w \<mapsto> name')\<rparr>)
        else (name, s1))"

definition git_email :: "'a world_scheme \<Rightarrow> user_state \<Rightarrow> jsstring option \<times> user_state" where
  "git_email w s =
     (let email = emailCache s (cwd w) in
      if truthy email then (email, s)
      else
        let s1 = s\<lparr>shell_log := shell_log s @ [Which (js ''git'')]\<rparr> in
        if which w (js ''git'') then
          let email' = js_trim (exec_stdout w (js ''git config --get user.email''));
              s2 = s1\<lparr>shell_log := shell_log s1 @ [Exec (js ''git config --get user.email'')]\<rparr>
          in (Some email', s2\<lparr>emailCache := (emailCache s2)(cwd w \<mapsto> email')\<rparr>)
        else (email, s1))"

text \<open>
  \<^verbatim>\<open>user.github.username\<close> resolves the email and hands it to the package
  \<^verbatim>\<open>github-username\<close>, which is a parameter here.
\<close>

definition github_username ::
  "(jsstring option \<Rightarrow> 'r) \<Rightarrow> 'a world_scheme \<Rightarrow> user_state \<Rightarrow> 'r \<times> user_state" where
  "github_username githubUsername w s =
     (let (email, s') = git_email w s in (githubUsername email, s'))"

text \<open>
  A process calls the three functions any number of times, each call in the world it
  finds. \<open>run_calls\<close> gives the state of the module after a sequence of calls.
\<close>

datatype call = CallName | CallEmail | CallGithub

fun do_call :: "call \<Rightarrow> world \<Rightarrow> user_state \<Rightarrow> user_state" where
  "do_call CallName w s = snd (git_name w s)"
| "do_call CallEmail w s = snd (git_email w s)"
| "do_call CallGithub w s = snd (github_username (\<lambda>email. ()) w s)"

fun run_calls :: "(call \<times> world) list \<Rightarrow> user_state \<Rightarrow> user_state" where
  "run_calls [] s = s"
| "run_calls ((c, w) # cs) s = run_calls cs (do_call c w s)"

section \<open>Regular expressions\<close>

text \<open>
  The pattern of utils.ts uses anchors, single characters, character classes,
  capturing groups and the lazy quantifier \<^verbatim>\<open>+?\<close> on a class. A pattern is the list of
  its elements in order; the non-capturing group \<^verbatim>\<open>(?:...)\<close> only brackets a
  sequence and leaves no element. No flag is set: \<^verbatim>\<open>^\<close> holds at the start of the
  input only, \<^verbatim>\<open>$\<close> at its end only, and a class compares code units.
\<close>

datatype cclass = OneOf "code_unit list" | NoneOf "code_unit list"

fun in_class :: "cclass \<Rightarrow> code_unit \<Rightarrow> bool" where
  "in_class (OneOf cs) c = (c \<in> set cs)"
| "in_class (NoneOf cs) c = (c \<notin> set cs)"

datatype instr =
    AssertBol | AssertEol | MatchChar code_unit | MatchClass cclass
  | PlusLazy cclass | OpenGroup nat | CloseGroup nat

type_synonym captures = "nat \<rightharpoonup> jsstring"

text \<open>
  The backtracking matcher: \<open>pre\<close> is the input consumed so far, \<open>rest\<close> what is left,
  \<open>st\<close> the start of each open group, \<open>caps\<close> the groups closed so far. The lazy
  quantifier takes one code unit of the class, tries the rest of the pattern, and takes
  one more only when that fails.
\<close>

fun run :: "instr list \<Rightarrow> jsstring \<Rightarrow> (nat \<Rightarrow> nat) \<Rightarrow> captures \<Rightarrow> jsstring
              \<Rightarrow> (jsstring \<times> captures) option" where
  "run [] pre st caps rest = Some (pre, caps)"
| "run (AssertBol # p) pre st caps rest = (if pre = [] then run p pre st caps rest else None)"
| "run (AssertEol # p) pre st caps rest = (if rest = [] then run p pre st caps rest else None)"
| "run (MatchChar c # p) pre st caps [] = None"
| "run (MatchChar c # p) pre st caps (x # xs) =
     (if x = c then run p (pre @ [x]) st caps xs else None)"
| "run (MatchClass cl # p) pre st caps [] = None"
| "run (MatchClass cl # p) pre st caps (x # xs) =
     (if in_class cl x then run p (pre @ [x]) st caps xs else None)"
| "run (OpenGroup n # p) pre st caps rest = run p pre (st(n := length pre)) caps rest"
| "run (CloseGroup n # p) pre st caps rest = run p pre st (caps(n \<mapsto> drop (st n) pre)) rest"
| "run (PlusLazy cl # p) pre st caps [] = None"
| "run (PlusLazy cl # p) pre st caps (x # xs) =
     (if in_class cl x then
        (case run p (pre @ [x]) st caps xs of
           Some r \<Rightarrow> Some r
         | None \<Rightarrow> run (PlusLazy cl # p) (pre @ [x]) st caps xs)
      else None)"

text \<open>
  \<^verbatim>\<open>RegExp.prototype.exec\<close> without the global or sticky flag tries every start
  position from 0 on and returns the first match; group 0 is the matched text.
  \<^verbatim>\<open>test\<close> says whether there is a match, and \<^verbatim>\<open>String.prototype.match\<close> with such a
  pattern is \<^verbatim>\<open>exec\<close>.
\<close>

fun exec_from :: "instr list \<Rightarrow> jsstring \<Rightarrow> jsstring \<Rightarrow> captures option" where
  "exec_from p pre [] =
     (case run p pre (\<lambda>_. 0) Map.empty [] of
        Some (consumed, caps) \<Rightarrow> Some (caps(0 \<mapsto> drop (length pre) consumed))
      | None \<Rightarrow> None)"
| "exec_from p pre (x # xs) =
     (case run p pre (\<lambda>_. 0) Map.empty (x # xs) of
        Some (consumed, caps) \<Rightarrow> Some (caps(0 \<mapsto> drop (length pre) consumed))
      | None \<Rightarrow> exec_from p (pre @ [x]) xs)"

definition regex_exec :: "instr list \<Rightarrow> jsstring \<Rightarrow> captures option" where
  "regex_exec p s = exec_from p [] s"

definition regex_test :: "instr list \<Rightarrow> jsstring \<Rightarrow> bool" where
  "regex_test p s = (regex_exec p s \<noteq> None)"

section \<open>Package names (utils.ts)\<close>

text \<open>
  \<^verbatim>\<open>const scopedRegex = /^(?:@([^/]+?)[/])([^/]+?)$/\<close>, where \<^verbatim>\<open>@\<close> is the code unit
  0x40 and \<^verbatim>\<open>/\<close> is 0x2F.
\<close>

definition scopedRegex :: "instr list" where
  "scopedRegex =
     [AssertBol, MatchChar 0x40, OpenGroup 1, PlusLazy (NoneOf [0x2F]), CloseGroup 1,
      MatchClass (OneOf [0x2F]), OpenGroup 2, PlusLazy (NoneOf [0x2F]), CloseGroup 2, AssertEol]"

datatype js_error = TypeError | Thrown jsstring

definition isScoped :: "jsstring \<Rightarrow> bool" where
  "isScoped name = regex_test scopedRegex name"

text \<open>
  \<^verbatim>\<open>name.match(scopedRegex)![2]\<close>: indexing the result of a failed match throws a
  TypeError, and a group that took no part in the match is \<^verbatim>\<open>undefined\<close>.
\<close>

definition repoName :: "jsstring \<Rightarrow> js_error + jsstring option" where
  "repoName name =
     (if isScoped name then
        (case regex_exec scopedRegex name of
           None \<Rightarrow> Inl TypeError
         | Some m \<Rightarrow> Inr (m 2))
      else Inr (Some name))"

text \<open>
  \<^verbatim>\<open>_s.slugify\<close> belongs to the package underscore.string and is a parameter.
\<close>

definition slugify :: "(jsstring \<Rightarrow> jsstring) \<Rightarrow> jsstring \<Rightarrow> jsstring" where
  "slugify s_slugify name = (if isScoped name then name else s_slugify name)"

text \<open>
  A slug, lowercase and hyphenated: every code unit is
  a lowercase letter \<^verbatim>\<open>a\<close> to \<^verbatim>\<open>z\<close>, a digit or the hyphen. This is what
  \<^verbatim>\<open>_s.slugify\<close> of underscore.string returns, and it is the contract asked of the
  parameter where a property of the slug is stated.
\<close>

definition is_slug_unit :: "code_unit \<Rightarrow> bool" where
  "is_slug_unit c \<longleftrightarrow> 0x61 \<le> c \<and> c \<le> 0x7A \<or> 0x30 \<le> c \<and> c \<le> 0x39 \<or> c = 0x2D"

definition is_slug :: "jsstring \<Rightarrow> bool" where
  "is_slug s = list_all is_slug_unit s"

text \<open>
  The form of a scoped name in words: \<^verbatim>\<open>@\<close>, a scope, \<^verbatim>\<open>/\<close>, a name, where scope and
  name are not empty and hold no \<^verbatim>\<open>/\<close>.
\<close>

definition scoped_form :: "jsstring \<Rightarrow> jsstring \<Rightarrow> jsstring \<Rightarrow> bool" where
  "scoped_form name s n \<longleftrightarrow>
     name = js ''@'' @ s @ js ''/'' @ n \<and> s \<noteq> [] \<and> n \<noteq> [] \<and>
     0x2F \<notin> set s \<and> 0x2F \<notin> set n"

section \<open>The generator command (index.ts)\<close>

text \<open>
  The interfaces \<^verbatim>\<open>NpmAnswers\<close> and \<^verbatim>\<open>NpmOptions\<close>. A key that may be absent is an
  option; the prompt skips \<^verbatim>\<open>githubUsername\<close>, \<^verbatim>\<open>cli\<close>, \<^verbatim>\<open>nyc\<close> and
  \<^verbatim>\<open>coveralls\<close> when their \<^verbatim>\<open>when\<close> condition is false.
\<close>

record NpmAnswers =
  ans_moduleName :: jsstring
  ans_moduleDescription :: jsstring
  ans_githubUsername :: "jsstring option"
  ans_website :: jsstring
  ans_cli :: "bool option"
  ans_nyc :: "bool option"
  ans_coveralls :: "bool option"

record NpmOptions =
  opt_coveralls :: "bool option"
  opt_org :: "jsstring option"
  opt_cli :: "bool option"
  opt_coverage :: "bool option"
  opt_install :: "bool option"

text \<open>The object \<^verbatim>\<open>tpl\<close>, the context handed to the templates.\<close>

record tpl =
  tpl_moduleName :: jsstring
  tpl_moduleDescription :: jsstring
  tpl_camelModuleName :: jsstring
  tpl_githubUsername :: "jsstring option"
  tpl_repoName :: "jsstring option"
  tpl_name :: "jsstring option"
  tpl_email :: "jsstring option"
  tpl_website :: jsstring
  tpl_humanizedWebsite :: jsstring
  tpl_cli :: "bool option"
  tpl_nyc :: "bool option"
  tpl_coveralls :: "bool option"

text \<open>The options of the formatter and an action of the host framework.\<close>

record Options =
  parser :: jsstring
  singleQuote :: "bool option"
  semi :: "bool option"
  trailingComma :: "jsstring option"

record Action =
  path :: jsstring
  templateFile :: jsstring
  format :: "Options option"

text \<open>
  The functions of other packages that the command calls are parameters:
  \<^verbatim>\<open>_s.camelize\<close>, \<^verbatim>\<open>humanizeUrl\<close> and \<^verbatim>\<open>path.join\<close>.
\<close>

record libs =
  s_camelize :: "jsstring option \<Rightarrow> jsstring"
  humanizeUrl :: "jsstring \<Rightarrow> jsstring"
  path_join :: "jsstring \<Rightarrow> jsstring \<Rightarrow> jsstring"

text \<open>
  The world of a run adds what the two awaited calls do: \<^verbatim>\<open>api.runActions\<close> and
  \<^verbatim>\<open>execa.shell\<close> (command, directory) either resolve (\<open>None\<close>) or reject with an
  error.
\<close>

record gen_world = world +
  runActions :: "Action list \<Rightarrow> tpl \<Rightarrow> js_error option"
  execa_shell :: "jsstring \<Rightarrow> jsstring \<Rightarrow> js_error option"

text \<open>What a run does to the outside, in order.\<close>

datatype log_entry = LogMessage jsstring jsstring | LogError js_error

datatype effect =
    RunActions "Action list" tpl
  | ExecaShell jsstring jsstring
  | Log log_entry
  | NpmInstall jsstring jsstring

record gen_state =
  user :: user_state
  effects :: "effect list"

text \<open>
  \<^verbatim>\<open>or(option, prop)\<close>: the option of the command line when it is defined, the answer
  otherwise. \<^verbatim>\<open>a || b\<close> on values that are a boolean or \<^verbatim>\<open>undefined\<close>.
\<close>

definition or_answer :: "'a option \<Rightarrow> 'a option \<Rightarrow> 'a option" where
  "or_answer opt ans = (case opt of None \<Rightarrow> ans | Some v \<Rightarrow> Some v)"

definition js_or :: "bool option \<Rightarrow> bool option \<Rightarrow> bool option" where
  "js_or a b = (if a = Some True then a else b)"

definition formatOpts :: Options where
  "formatOpts =
     \<lparr>parser = js ''typescript'', singleQuote = Some True, semi = Some False,
      trailingComma = Some (js ''es5'')\<rparr>"

definition json_format :: Options where
  "json_format =
     \<lparr>parser = js ''json'', singleQuote = None, semi = None, trailingComma = None\<rparr>"

text \<open>The literal list of actions, lines 137 to 193.\<close>

definition fixed_actions :: "Action list" where
  "fixed_actions =
     [\<lparr>path = js ''.prettierrc'', templateFile = js ''prettierrc'', format = None\<rparr>,
      \<lparr>path = js ''.gitignore'', templateFile = js ''gitignore'', format = None\<rparr>,
      \<lparr>path = js ''.travis.yml'', templateFile = js ''travis.yml'', format = None\<rparr>,
      \<lparr>path = js ''package.json'', templateFile = js ''_package.json'',
       format = Some json_format\<rparr>,
      \<lparr>path = js ''tsconfig.json'', templateFile = js ''_tsconfig.json'',
       format = Some json_format\<rparr>,
      \<lparr>path = js ''tslint.json'', templateFile = js ''tslint.json'',
       format = Some json_format\<rparr>,
      \<lparr>path = js ''.npmignore'', templateFile = js ''npmignore'', format = None\<rparr>,
      \<lparr>path = js ''index.ts'', templateFile = js ''index.ts'', format = Some formatOpts\<rparr>,
      \<lparr>path = js ''test.ts'', templateFile = js ''test.ts'', format = Some formatOpts\<rparr>,
      \<lparr>path = js ''license'', templateFile = js ''license'', format = None\<rparr>,
      \<lparr>path = js ''readme.md'', templateFile = js ''readme.md'', format = None\<rparr>]"

definition cli_action :: Action where
  "cli_action = \<lparr>path = js ''cli.ts'', templateFile = js ''cli.ts'', format = Some formatOpts\<rparr>"

text \<open>
  The context, lines 104 to 128, from the options, the answers, the repository name and
  the Git identity.
\<close>

definition generation_context ::
  "libs \<Rightarrow> NpmOptions \<Rightarrow> NpmAnswers \<Rightarrow> jsstring option \<Rightarrow> jsstring option \<Rightarrow> jsstring option
     \<Rightarrow> tpl" where
  "generation_context l options answers repo_name git_name_value git_email_value =
     (let cli = or_answer (opt_cli options) (ans_cli answers);
          coveralls = or_answer (opt_coveralls options) (ans_coveralls answers);
          nyc = js_or coveralls (or_answer (opt_coverage options) (ans_nyc answers))
      in \<lparr>tpl_moduleName = ans_moduleName answers,
          tpl_moduleDescription = ans_moduleDescription answers,
          tpl_camelModuleName = s_camelize l repo_name,
          tpl_githubUsername =
            (if truthy (opt_org options) then opt_org options else ans_githubUsername answers),
          tpl_repoName = repo_name,
          tpl_name = git_name_value,
          tpl_email = git_email_value,
          tpl_website = ans_website answers,
          tpl_humanizedWebsite = humanizeUrl l (ans_website answers),
          tpl_cli = cli,
          tpl_nyc = nyc,
          tpl_coveralls = coveralls\<rparr>)"

text \<open>
  The actions, lines 137 to 207: the fixed list, the CLI entry file when \<^verbatim>\<open>tpl.cli\<close> is
  truthy, each moved under the target directory and its template under
  \<^verbatim>\<open>./templates/\<close>.
\<close>

definition generation_actions :: "libs \<Rightarrow> jsstring \<Rightarrow> tpl \<Rightarrow> Action list" where
  "generation_actions l target t =
     map (\<lambda>a. a\<lparr>path := path_join l target (path a),
               templateFile := js ''./templates/'' @ templateFile a\<rparr>)
       (fixed_actions @ (if tpl_cli t = Some True then [cli_action] else []))"

text \<open>
  The body of the command, after the prompt has returned the answers. A rejection of
  \<^verbatim>\<open>api.runActions\<close> leaves the command; a rejection of \<^verbatim>\<open>git init\<close> is caught and
  logged.
\<close>

definition action ::
  "libs \<Rightarrow> gen_world \<Rightarrow> NpmOptions \<Rightarrow> NpmAnswers \<Rightarrow> gen_state \<Rightarrow> (js_error + unit) \<times> gen_state" where
  "action l w options answers g =
     (case repoName (ans_moduleName answers) of
        Inl err \<Rightarrow> (Inl err, g)
      | Inr repo_name \<Rightarrow>
         (let (git_name_value, u1) = git_name w (user g);
              (git_email_value, u2) = git_email w u1;
              t = generation_context l options answers repo_name git_name_value git_email_value;
              target = path_join l (cwd w) (tpl_moduleName t);
              actions = generation_actions l target t;
              g1 = g\<lparr>user := u2, effects := effects g @ [RunActions actions t]\<rparr>
          in (case runActions w actions t of
               Some err \<Rightarrow> (Inl err, g1)
             | None \<Rightarrow>
                 let g2 = g1\<lparr>effects := effects g1 @ [ExecaShell (js ''git init'') target]\<rparr>;
                     g3 = (case execa_shell w (js ''git init'') target of
                             None \<Rightarrow>
                               g2\<lparr>effects := effects g2 @
                                  [Log (LogMessage (js ''created an empty git repo inside %s'')
                                          target)]\<rparr>
                           | Some error \<Rightarrow> g2\<lparr>effects := effects g2 @ [Log (LogError error)]\<rparr>);
                     g4 = (if opt_install options = Some True
                           then g3\<lparr>effects := effects g3 @ [NpmInstall target []]\<rparr>
                           else g3)
                 in (Inr (), g4))))"

text \<open>
  The actions and the context handed to \<^verbatim>\<open>api.runActions\<close>, read back from what a run
  did.
\<close>

fun runner_input :: "effect list \<Rightarrow> (Action list \<times> tpl) option" where
  "runner_input [] = None"
| "runner_input (RunActions a t # es) = Some (a, t)"
| "runner_input (e # es) = runner_input es"

section \<open>Example inputs\<close>

text \<open>
  The module as loaded, with both caches empty, and four worlds: Git configured for Jane
  Doe, Git installed with no identity configured, no Git on the path, and another
  directory with another identity.
\<close>

definition initial_user_state :: user_state where
  "initial_user_state = \<lparr>nameCache = Map.empty, emailCache = Map.empty, shell_log = []\<rparr>"

definition jane_world :: world where
  "jane_world =
     \<lparr>cwd = js ''/home/jane/work'',
      which = (\<lambda>c. c = js ''git''),
      exec_stdout = (\<lambda>c. if c = js ''git config --get user.name'' then js ''Jane Doe'' @ [0x0A]
                         else if c = js ''git config --get user.email''
                         then js ''jane@example.com'' @ [0x0A] else [])\<rparr>"

definition unset_world :: world where
  "unset_world =
     \<lparr>cwd = js ''/home/jane/work'', which = (\<lambda>c. c = js ''git''), exec_stdout = (\<lambda>c. [])\<rparr>"

definition no_git_world :: world where
  "no_git_world =
     \<lparr>cwd = js ''/home/jane/work'', which = (\<lambda>c. False), exec_stdout = (\<lambda>c. [])\<rparr>"

definition other_world :: world where
  "other_world =
     \<lparr>cwd = js ''/srv/project'',
      which = (\<lambda>c. c = js ''git''),
      exec_stdout = (\<lambda>c. if c = js ''git config --get user.name'' then js ''Build Bot'' @ [0x0A]
                         else if c = js ''git config --get user.email''
                         then js ''bot@example.com'' @ [0x0A] else [])\<rparr>"

text \<open>
  A run of the command for the module \<^verbatim>\<open>my-app\<close>: stubs for the three library
  functions, the world of Jane Doe in which the action runner succeeds and
  \<^verbatim>\<open>git init\<close> fails, the options of the command line, and the answers.
\<close>

definition example_libs :: libs where
  "example_libs =
     \<lparr>s_camelize = (\<lambda>r. js ''myApp''), humanizeUrl = (\<lambda>u. u),
      path_join = (\<lambda>a b. a @ js ''/'' @ b)\<rparr>"

text \<open>
  A stub for \<^verbatim>\<open>_s.slugify\<close>: ASCII capitals become lowercase, and every code unit that
  is then no lowercase letter, digit or hyphen becomes a hyphen.
\<close>

definition example_slugify :: "jsstring \<Rightarrow> jsstring" where
  "example_slugify =
     map (\<lambda>c. let d = (if 0x41 \<le> c \<and> c \<le> 0x5A then c + 0x20 else c)
              in if is_slug_unit d then d else 0x2D)"

definition jane_gen_world :: gen_world where
  "jane_gen_world =
     \<lparr>cwd = cwd jane_world, which = which jane_world, exec_stdout = exec_stdout jane_world,
      runActions = (\<lambda>a t. None),
      execa_shell = (\<lambda>c d. Some (Thrown (js ''Command failed: git init'')))\<rparr>"

definition example_options :: NpmOptions where
  "example_options =
     \<lparr>opt_coveralls = Some False, opt_org = None, opt_cli = None, opt_coverage = Some False,
      opt_install = Some True\<rparr>"

definition example_answers :: NpmAnswers where
  "example_answers =
     \<lparr>ans_moduleName = js ''my-app'', ans_moduleDescription = js ''My module'',
      ans_githubUsername = Some (js ''jane''), ans_website = js ''https://example.com'',
      ans_cli = Some False, ans_nyc = None, ans_coveralls = None\<rparr>"

definition cli_answers :: NpmAnswers where
  "cli_answers = example_answers\<lparr>ans_cli := Some True\<rparr>"

definition initial_gen_state :: gen_state where
  "initial_gen_state = \<lparr>user = initial_user_state, effects = []\<rparr>"

lemmas example_defs =
  initial_user_state_def jane_world_def unset_world_def no_git_world_def other_world_def

section \<open>Properties of the Git identity\<close>

lemma trim_jane: "js_trim (js ''Jane Doe'' @ [0x0A]) = js ''Jane Doe''"
  by (simp add: js_trim_def js_def is_js_space_def)

lemma trim_jane_email: "js_trim (js ''jane@example.com'' @ [0x0A]) = js ''jane@example.com''"
  by (simp add: js_trim_def js_def is_js_space_def)

lemma jane_name_first:
  "git_name jane_world initial_user_state =
     (Some (js ''Jane Doe''),
      \<lparr>nameCache = [js ''/home/jane/work'' \<mapsto> js ''Jane Doe''], emailCache = Map.empty,
       shell_log = [Which (js ''git''), Exec (js ''git config --get user.name'')]\<rparr>)"
  by (simp add: git_name_def example_defs truthy_def Let_def js_trim_def is_js_space_def js_def)

lemma unset_name_first:
  "git_name unset_world initial_user_state =
     (Some [],
      \<lparr>nameCache = [js ''/home/jane/work'' \<mapsto> []], emailCache = Map.empty,
       shell_log = [Which (js ''git''), Exec (js ''git config --get user.name'')]\<rparr>)"
  by (simp add: git_name_def example_defs truthy_def Let_def js_trim_def)

lemma unset_email_first:
  "git_email unset_world initial_user_state =
     (Some [],
      \<lparr>nameCache = Map.empty, emailCache = [js ''/home/jane/work'' \<mapsto> []],
       shell_log = [Which (js ''git''), Exec (js ''git config --get user.email'')]\<rparr>)"
  by (simp add: git_email_def example_defs truthy_def Let_def js_trim_def)

lemma jane_world_facts:
  "which jane_world (js ''git'')"
  "cwd jane_world = js ''/home/jane/work''"
  "exec_stdout jane_world (js ''git config --get user.name'') = js ''Jane Doe'' @ [0x0A]"
  "exec_stdout jane_world (js ''git config --get user.email'') = js ''jane@example.com'' @ [0x0A]"
  by (simp_all add: jane_world_def js_def)

lemma git_name_hit:
  "nameCache s (cwd w) = Some v \<Longrightarrow> v \<noteq> [] \<Longrightarrow> git_name w s = (Some v, s)"
  by (simp add: git_name_def truthy_def)

lemma git_email_hit:
  "emailCache s (cwd w) = Some v \<Longrightarrow> v \<noteq> [] \<Longrightarrow> git_email w s = (Some v, s)"
  by (simp add: git_email_def truthy_def)

lemma git_name_caches_result:
  "git_name w s = (Some v, s1) \<Longrightarrow> v \<noteq> [] \<Longrightarrow> nameCache s1 (cwd w) = Some v"
  by (auto simp: git_name_def truthy_def Let_def split: if_splits option.splits)

lemma git_email_caches_result:
  "git_email w s = (Some v, s1) \<Longrightarrow> v \<noteq> [] \<Longrightarrow> emailCache s1 (cwd w) = Some v"
  by (auto simp: git_email_def truthy_def Let_def split: if_splits option.splits)

lemma git_name_keeps_entry:
  "nameCache s d = Some v \<Longrightarrow> v \<noteq> [] \<Longrightarrow> nameCache (snd (git_name w s)) d = Some v"
  by (auto simp: git_name_def truthy_def Let_def)

lemma git_email_keeps_entry:
  "emailCache s d = Some v \<Longrightarrow> v \<noteq> [] \<Longrightarrow> emailCache (snd (git_email w s)) d = Some v"
  by (auto simp: git_email_def truthy_def Let_def)

lemma git_email_nameCache: "nameCache (snd (git_email w s)) = nameCache s"
  by (simp add: git_email_def Let_def)

lemma git_name_emailCache: "emailCache (snd (git_name w s)) = emailCache s"
  by (simp add: git_name_def Let_def)

lemma do_call_keeps_name:
  "nameCache s d = Some v \<Longrightarrow> v \<noteq> [] \<Longrightarrow> nameCache (do_call c w s) d = Some v"
  by (cases c)
    (simp_all add: git_name_keeps_entry git_email_nameCache github_username_def split_beta)

lemma do_call_keeps_email:
  "emailCache s d = Some v \<Longrightarrow> v \<noteq> [] \<Longrightarrow> emailCache (do_call c w s) d = Some v"
  by (cases c)
    (simp_all add: git_email_keeps_entry git_name_emailCache github_username_def split_beta)

lemma run_calls_keeps_name:
  "nameCache s d = Some v \<Longrightarrow> v \<noteq> [] \<Longrightarrow> nameCache (run_calls cs s) d = Some v"
  by (induction cs arbitrary: s) (auto simp: do_call_keeps_name)

lemma run_calls_keeps_email:
  "emailCache s d = Some v \<Longrightarrow> v \<noteq> [] \<Longrightarrow> emailCache (run_calls cs s) d = Some v"
  by (induction cs arbitrary: s) (auto simp: do_call_keeps_email)

text \<open>
  C2, as stated, fails: with Git installed and \<^verbatim>\<open>user.name\<close> not configured the lookup
  yields the empty string, and \<^verbatim>\<open>nameCache.set\<close> stores it under the working directory.
\<close>

theorem git_name_stores_empty_output:
  "fst (git_name unset_world initial_user_state) = Some [] \<and>
   nameCache (snd (git_name unset_world initial_user_state)) (cwd unset_world) = Some []"
  by (simp add: git_name_def example_defs truthy_def js_trim_def Let_def)

text \<open>
  C2, amended: a lookup that yields \<^verbatim>\<open>undefined\<close> stores nothing. When Git is found and
  the directory has no non-empty cached value, the trimmed output is returned and stored
  under the working directory, also when it is empty. In every other case the cache is
  left as it was. The same holds of the email and its cache.
\<close>

theorem cache_store_policy:
  "(fst (git_name w s) = None \<longrightarrow> nameCache (snd (git_name w s)) = nameCache s) \<and>
   (which w (js ''git'') \<and> \<not> truthy (nameCache s (cwd w)) \<longrightarrow>
      fst (git_name w s) = Some (js_trim (exec_stdout w (js ''git config --get user.name''))) \<and>
      nameCache (snd (git_name w s)) =
        (nameCache s)(cwd w \<mapsto> js_trim (exec_stdout w (js ''git config --get user.name'')))) \<and>
   (\<not> which w (js ''git'') \<or> truthy (nameCache s (cwd w)) \<longrightarrow>
      nameCache (snd (git_name w s)) = nameCache s) \<and>
   (fst (git_email w s) = None \<longrightarrow> emailCache (snd (git_email w s)) = emailCache s) \<and>
   (which w (js ''git'') \<and> \<not> truthy (emailCache s (cwd w)) \<longrightarrow>
      fst (git_email w s) = Some (js_trim (exec_stdout w (js ''git config --get user.email''))) \<and>
      emailCache (snd (git_email w s)) =
        (emailCache s)(cwd w \<mapsto> js_trim (exec_stdout w (js ''git config --get user.email'')))) \<and>
   (\<not> which w (js ''git'') \<or> truthy (emailCache s (cwd w)) \<longrightarrow>
      emailCache (snd (git_email w s)) = emailCache s)"
  by (simp add: git_name_def git_email_def Let_def)

theorem cache_store_policy_witness:
  "which jane_world (js ''git'') \<and>
   \<not> truthy (nameCache initial_user_state (cwd jane_world)) \<and>
   \<not> truthy (emailCache initial_user_state (cwd jane_world)) \<and>
   nameCache (snd (git_name jane_world initial_user_state)) =
     [js ''/home/jane/work'' \<mapsto> js ''Jane Doe''] \<and>
   emailCache (snd (git_email jane_world initial_user_state)) =
     [js ''/home/jane/work'' \<mapsto> js ''jane@example.com'']"
proof -
  have n: "\<not> truthy (nameCache initial_user_state (cwd jane_world))"
    and e: "\<not> truthy (emailCache initial_user_state (cwd jane_world))"
    by (simp_all add: initial_user_state_def truthy_def)
  have c: "nameCache initial_user_state = Map.empty" "emailCache initial_user_state = Map.empty"
    by (simp_all add: initial_user_state_def)
  show ?thesis
    using cache_store_policy [of jane_world initial_user_state] n e
    by (simp add: jane_world_facts c trim_jane trim_jane_email)
qed

text \<open>
  C3: when a call of \<^verbatim>\<open>user.git.name\<close> (or \<^verbatim>\<open>user.git.email\<close>) returns the empty
  string or \<^verbatim>\<open>undefined\<close>, the next call in the same directory looks Git up again: it
  asks \<^verbatim>\<open>shell.which\<close>, and when Git is found it runs the subprocess and returns its
  trimmed output.
\<close>

theorem no_negative_caching:
  assumes "cwd w' = cwd w"
  shows "(\<not> truthy (fst (git_name w s)) \<longrightarrow>
            fst (git_name w' (snd (git_name w s))) =
              (if which w' (js ''git'')
               then Some (js_trim (exec_stdout w' (js ''git config --get user.name'')))
               else fst (git_name w s)) \<and>
            shell_log (snd (git_name w' (snd (git_name w s)))) =
              shell_log (snd (git_name w s)) @ Which (js ''git'') #
                (if which w' (js ''git'') then [Exec (js ''git config --get user.name'')] else [])) \<and>
         (\<not> truthy (fst (git_email w s)) \<longrightarrow>
            fst (git_email w' (snd (git_email w s))) =
              (if which w' (js ''git'')
               then Some (js_trim (exec_stdout w' (js ''git config --get user.email'')))
               else fst (git_email w s)) \<and>
            shell_log (snd (git_email w' (snd (git_email w s)))) =
              shell_log (snd (git_email w s)) @ Which (js ''git'') #
                (if which w' (js ''git'') then [Exec (js ''git config --get user.email'')] else []))"
  using assms
  by (auto simp: git_name_def git_email_def Let_def truthy_def split: option.splits)

theorem no_negative_caching_witness:
  "cwd jane_world = cwd unset_world \<and>
   \<not> truthy (fst (git_name unset_world initial_user_state)) \<and>
   \<not> truthy (fst (git_email unset_world initial_user_state)) \<and>
   fst (git_name jane_world (snd (git_name unset_world initial_user_state))) =
     Some (js ''Jane Doe'') \<and>
   shell_log (snd (git_name jane_world (snd (git_name unset_world initial_user_state)))) =
     [Which (js ''git''), Exec (js ''git config --get user.name''),
      Which (js ''git''), Exec (js ''git config --get user.name'')] \<and>
   fst (git_email jane_world (snd (git_email unset_world initial_user_state))) =
     Some (js ''jane@example.com'')"
proof -
  have c: "cwd jane_world = cwd unset_world"
    by (simp add: example_defs)
  show ?thesis
    using no_negative_caching [OF c, of initial_user_state] c
    by (simp add: unset_name_first unset_email_first jane_world_facts truthy_def
        trim_jane trim_jane_email)
qed

text \<open>
  C4: once \<^verbatim>\<open>user.git.name\<close> (or \<^verbatim>\<open>user.git.email\<close>) has returned a non-empty value
  in a directory, every later call in that directory, after any calls of the module in
  any worlds, returns the same value and leaves the state as it is: no call to the shell
  is made, whatever Git would answer now.
\<close>

theorem cached_identity_is_stable:
  assumes "cwd w' = cwd w" and "v \<noteq> []"
  shows "(git_name w s = (Some v, s1) \<longrightarrow>
            git_name w' (run_calls cs s1) = (Some v, run_calls cs s1)) \<and>
         (git_email w s = (Some v, s1) \<longrightarrow>
            git_email w' (run_calls cs s1) = (Some v, run_calls cs s1))"
proof (intro conjI impI)
  assume "git_name w s = (Some v, s1)"
  then have "nameCache s1 (cwd w) = Some v"
    using assms(2) by (rule git_name_caches_result)
  then have "nameCache (run_calls cs s1) (cwd w') = Some v"
    using assms by (simp add: run_calls_keeps_name)
  then show "git_name w' (run_calls cs s1) = (Some v, run_calls cs s1)"
    using assms(2) by (rule git_name_hit)
next
  assume "git_email w s = (Some v, s1)"
  then have "emailCache s1 (cwd w) = Some v"
    using assms(2) by (rule git_email_caches_result)
  then have "emailCache (run_calls cs s1) (cwd w') = Some v"
    using assms by (simp add: run_calls_keeps_email)
  then show "git_email w' (run_calls cs s1) = (Some v, run_calls cs s1)"
    using assms(2) by (rule git_email_hit)
qed

theorem cached_identity_is_stable_witness:
  "cwd unset_world = cwd jane_world \<and> js ''Jane Doe'' \<noteq> [] \<and>
   fst (git_name jane_world initial_user_state) = Some (js ''Jane Doe'') \<and>
   fst (git_name unset_world
          (run_calls [(CallEmail, other_world), (CallName, other_world), (CallGithub, no_git_world)]
             (snd (git_name jane_world initial_user_state)))) = Some (js ''Jane Doe'') \<and>
   shell_log (snd (git_name unset_world
          (run_calls [(CallEmail, other_world), (CallName, other_world), (CallGithub, no_git_world)]
             (snd (git_name jane_world initial_user_state))))) =
   shell_log (run_calls [(CallEmail, other_world), (CallName, other_world), (CallGithub, no_git_world)]
             (snd (git_name jane_world initial_user_state)))"
proof -
  have c: "cwd unset_world = cwd jane_world" and v: "js ''Jane Doe'' \<noteq> []"
    by (simp_all add: example_defs js_def)
  show ?thesis
    using cached_identity_is_stable [OF c v,
        of initial_user_state "snd (git_name jane_world initial_user_state)"
           "[(CallEmail, other_world), (CallName, other_world), (CallGithub, no_git_world)]"]
      c v
    by (simp add: jane_name_first)
qed

lemma git_name_depends_on_entry:
  "nameCache s' (cwd w) = nameCache s (cwd w) \<Longrightarrow> fst (git_name w s') = fst (git_name w s)"
  by (simp add: git_name_def Let_def)

lemma git_email_depends_on_entry:
  "emailCache s' (cwd w) = emailCache s (cwd w) \<Longrightarrow> fst (git_email w s') = fst (git_email w s)"
  by (simp add: git_email_def Let_def)

lemma git_name_other_entry:
  "d \<noteq> cwd w \<Longrightarrow> nameCache (snd (git_name w s)) d = nameCache s d"
  by (simp add: git_name_def Let_def)

lemma git_email_other_entry:
  "d \<noteq> cwd w \<Longrightarrow> emailCache (snd (git_email w s)) d = emailCache s d"
  by (simp add: git_email_def Let_def)

lemma other_world_facts:
  "which other_world (js ''git'')"
  "cwd other_world = js ''/srv/project''"
  "exec_stdout other_world (js ''git config --get user.name'') = js ''Build Bot'' @ [0x0A]"
  "exec_stdout other_world (js ''git config --get user.email'') = js ''bot@example.com'' @ [0x0A]"
  by (simp_all add: other_world_def js_def)

lemma other_name_first:
  "fst (git_name other_world initial_user_state) = Some (js ''Build Bot'')"
  by (simp add: git_name_def example_defs truthy_def Let_def js_trim_def is_js_space_def js_def)

text \<open>
  C8: a call of \<^verbatim>\<open>user.git.name\<close> in directory \<open>cwd a\<close> leaves the email cache and
  every entry of the name cache for another directory as they were, and a call of
  \<^verbatim>\<open>user.git.email\<close> does the same with the caches exchanged. So what a call in
  another directory \<open>cwd b\<close> returns does not depend on whether the call in \<open>cwd a\<close>
  was made, and the name and the email never affect each other.
\<close>

theorem resolution_frame:
  "emailCache (snd (git_name a s)) = emailCache s \<and>
   nameCache (snd (git_email a s)) = nameCache s \<and>
   (d \<noteq> cwd a \<longrightarrow>
      nameCache (snd (git_name a s)) d = nameCache s d \<and>
      emailCache (snd (git_email a s)) d = emailCache s d) \<and>
   (cwd b \<noteq> cwd a \<longrightarrow>
      fst (git_name b (snd (git_name a s))) = fst (git_name b s) \<and>
      fst (git_email b (snd (git_email a s))) = fst (git_email b s)) \<and>
   fst (git_email b (snd (git_name a s))) = fst (git_email b s) \<and>
   fst (git_name b (snd (git_email a s))) = fst (git_name b s)"
proof (intro conjI impI)
  show "emailCache (snd (git_name a s)) = emailCache s"
    by (rule git_name_emailCache)
  show "nameCache (snd (git_email a s)) = nameCache s"
    by (rule git_email_nameCache)
  show "fst (git_email b (snd (git_name a s))) = fst (git_email b s)"
    by (rule git_email_depends_on_entry) (simp add: git_name_emailCache)
  show "fst (git_name b (snd (git_email a s))) = fst (git_name b s)"
    by (rule git_name_depends_on_entry) (simp add: git_email_nameCache)
next
  assume "d \<noteq> cwd a"
  then show "nameCache (snd (git_name a s)) d = nameCache s d"
    and "emailCache (snd (git_email a s)) d = emailCache s d"
    by (simp_all add: git_name_other_entry git_email_other_entry)
next
  assume "cwd b \<noteq> cwd a"
  then have n: "nameCache (snd (git_name a s)) (cwd b) = nameCache s (cwd b)"
    and e: "emailCache (snd (git_email a s)) (cwd b) = emailCache s (cwd b)"
    by (simp_all add: git_name_other_entry git_email_other_entry)
  show "fst (git_name b (snd (git_name a s))) = fst (git_name b s)"
    using n by (rule git_name_depends_on_entry)
  show "fst (git_email b (snd (git_email a s))) = fst (git_email b s)"
    using e by (rule git_email_depends_on_entry)
qed

theorem resolution_frame_witness:
  "js ''/srv/project'' \<noteq> cwd jane_world \<and> cwd other_world \<noteq> cwd jane_world \<and>
   nameCache (snd (git_name jane_world initial_user_state)) (js ''/srv/project'') = None \<and>
   emailCache (snd (git_name jane_world initial_user_state)) = Map.empty \<and>
   fst (git_name other_world (snd (git_name jane_world initial_user_state))) =
     Some (js ''Build Bot'')"
proof -
  have d: "js ''/srv/project'' \<noteq> cwd jane_world" "cwd other_world \<noteq> cwd jane_world"
    by (simp_all add: example_defs js_def)
  have i: "nameCache initial_user_state = Map.empty" "emailCache initial_user_state = Map.empty"
    by (simp_all add: initial_user_state_def)
  show ?thesis
    using resolution_frame [of jane_world initial_user_state "js ''/srv/project''" other_world] d
    by (simp add: i other_name_first)
qed

lemma git_name_trimmed_entries:
  "ran (nameCache s) \<subseteq> range js_trim \<Longrightarrow> ran (nameCache (snd (git_name w s))) \<subseteq> range js_trim"
  by (auto simp: git_name_def Let_def ran_def split: if_splits)

lemma git_email_trimmed_entries:
  "ran (emailCache s) \<subseteq> range js_trim \<Longrightarrow> ran (emailCache (snd (git_email w s))) \<subseteq> range js_trim"
  by (auto simp: git_email_def Let_def ran_def split: if_splits)

lemma do_call_trimmed_entries:
  assumes "ran (nameCache s) \<subseteq> range js_trim \<and> ran (emailCache s) \<subseteq> range js_trim"
  shows "ran (nameCache (do_call c w s)) \<subseteq> range js_trim \<and>
         ran (emailCache (do_call c w s)) \<subseteq> range js_trim"
  using assms
  by (cases c)
    (simp_all add: git_name_trimmed_entries git_email_trimmed_entries git_name_emailCache
      git_email_nameCache github_username_def split_beta)

lemma run_calls_trimmed_entries:
  "ran (nameCache s) \<subseteq> range js_trim \<and> ran (emailCache s) \<subseteq> range js_trim \<Longrightarrow>
   ran (nameCache (run_calls cs s)) \<subseteq> range js_trim \<and>
   ran (emailCache (run_calls cs s)) \<subseteq> range js_trim"
proof (induction cs arbitrary: s)
  case Nil
  then show ?case by simp
next
  case (Cons a cs)
  obtain c w where a: "a = (c, w)" by (cases a)
  show ?case
    unfolding a run_calls.simps
    by (rule Cons.IH, rule do_call_trimmed_entries, rule Cons.prems)
qed

lemma reachable_trimmed_entries:
  "ran (nameCache (run_calls cs initial_user_state)) \<subseteq> range js_trim"
  "ran (emailCache (run_calls cs initial_user_state)) \<subseteq> range js_trim"
  using run_calls_trimmed_entries [of initial_user_state cs]
  by (simp_all add: initial_user_state_def)

lemma git_name_reachable_trimmed:
  assumes "which w (js ''git'')"
  shows "\<exists>out. fst (git_name w (run_calls cs initial_user_state)) = Some (js_trim out)"
proof (cases "truthy (nameCache (run_calls cs initial_user_state) (cwd w))")
  case True
  then obtain v where v: "nameCache (run_calls cs initial_user_state) (cwd w) = Some v"
    by (auto simp: truthy_def split: option.splits)
  then have "v \<in> range js_trim"
    using reachable_trimmed_entries(1) [of cs] by (auto simp: ran_def)
  then show ?thesis
    using True v by (auto simp: git_name_def)
next
  case False
  then show ?thesis
    using assms by (auto simp: git_name_def Let_def)
qed

lemma git_email_reachable_trimmed:
  assumes "which w (js ''git'')"
  shows "\<exists>out. fst (git_email w (run_calls cs initial_user_state)) = Some (js_trim out)"
proof (cases "truthy (emailCache (run_calls cs initial_user_state) (cwd w))")
  case True
  then obtain v where v: "emailCache (run_calls cs initial_user_state) (cwd w) = Some v"
    by (auto simp: truthy_def split: option.splits)
  then have "v \<in> range js_trim"
    using reachable_trimmed_entries(2) [of cs] by (auto simp: ran_def)
  then show ?thesis
    using True v by (auto simp: git_email_def)
next
  case False
  then show ?thesis
    using assms by (auto simp: git_email_def Let_def)
qed

text \<open>
  C10: when Git is found, \<^verbatim>\<open>user.git.name\<close> and \<^verbatim>\<open>user.git.email\<close> return a string:
  the cached value when it is not empty, the trimmed output of the subprocess (which may
  be empty) otherwise. In a state the module reaches from its loaded state the cached
  value is itself trimmed output, so the result always is. They return \<^verbatim>\<open>undefined\<close>
  exactly when Git is not found and the cache holds no value for the working directory.
\<close>

theorem git_found_returns_string:
  "(which w (js ''git'') \<longrightarrow>
      (\<exists>v. fst (git_name w s) = Some v) \<and>
      (truthy (nameCache s (cwd w)) \<longrightarrow> fst (git_name w s) = nameCache s (cwd w)) \<and>
      (\<not> truthy (nameCache s (cwd w)) \<longrightarrow>
         fst (git_name w s) = Some (js_trim (exec_stdout w (js ''git config --get user.name'')))) \<and>
      (\<exists>out. fst (git_name w (run_calls cs initial_user_state)) = Some (js_trim out)) \<and>
      (\<exists>v. fst (git_email w s) = Some v) \<and>
      (truthy (emailCache s (cwd w)) \<longrightarrow> fst (git_email w s) = emailCache s (cwd w)) \<and>
      (\<not> truthy (emailCache s (cwd w)) \<longrightarrow>
         fst (git_email w s) = Some (js_trim (exec_stdout w (js ''git config --get user.email'')))) \<and>
      (\<exists>out. fst (git_email w (run_calls cs initial_user_state)) = Some (js_trim out))) \<and>
   (fst (git_name w s) = None \<longleftrightarrow> \<not> which w (js ''git'') \<and> nameCache s (cwd w) = None) \<and>
   (fst (git_email w s) = None \<longleftrightarrow> \<not> which w (js ''git'') \<and> emailCache s (cwd w) = None)"
proof (intro conjI impI)
  assume "which w (js ''git'')"
  then show "\<exists>out. fst (git_name w (run_calls cs initial_user_state)) = Some (js_trim out)"
    and "\<exists>out. fst (git_email w (run_calls cs initial_user_state)) = Some (js_trim out)"
    by (rule git_name_reachable_trimmed, rule git_email_reachable_trimmed)
qed (auto simp: git_name_def git_email_def Let_def truthy_def split: option.splits)

theorem git_found_returns_string_witness:
  "which unset_world (js ''git'') \<and>
   \<not> truthy (nameCache initial_user_state (cwd unset_world)) \<and>
   \<not> truthy (emailCache initial_user_state (cwd unset_world)) \<and>
   fst (git_name unset_world initial_user_state) = Some [] \<and>
   fst (git_email unset_world initial_user_state) = Some [] \<and>
   \<not> which no_git_world (js ''git'') \<and>
   fst (git_name no_git_world initial_user_state) = None \<and>
   fst (git_email no_git_world initial_user_state) = None"
proof -
  have u: "which unset_world (js ''git'')"
    "exec_stdout unset_world (js ''git config --get user.name'') = []"
    "exec_stdout unset_world (js ''git config --get user.email'') = []"
    "\<not> which no_git_world (js ''git'')"
    by (simp_all add: example_defs)
  have i: "nameCache initial_user_state = Map.empty" "emailCache initial_user_state = Map.empty"
    by (simp_all add: initial_user_state_def)
  have t: "js_trim [] = []" "\<not> truthy None"
    by (simp_all add: js_trim_def truthy_def)
  show ?thesis
    using git_found_returns_string [of unset_world initial_user_state]
      git_found_returns_string [of no_git_world initial_user_state]
    by (simp add: u i t)
qed

section \<open>Properties of package names\<close>

lemma run_name_tail:
  "run [PlusLazy (NoneOf [0x2F]), CloseGroup g, AssertEol] pre st caps rest =
     (if rest \<noteq> [] \<and> 0x2F \<notin> set rest
      then Some (pre @ rest, caps(g \<mapsto> drop (st g) (pre @ rest))) else None)"
  by (induction rest arbitrary: pre) auto

lemma plus_lazy_skip:
  "x \<noteq> 0x2F \<Longrightarrow> rest = [] \<or> hd rest \<noteq> 0x2F \<Longrightarrow>
   run (PlusLazy (NoneOf [0x2F]) # CloseGroup g # MatchClass (OneOf [0x2F]) # q) pre st caps (x # rest) =
   run (PlusLazy (NoneOf [0x2F]) # CloseGroup g # MatchClass (OneOf [0x2F]) # q) (pre @ [x]) st caps rest"
  by (cases rest) auto

lemma run_scope_none:
  "0x2F \<notin> set rest \<Longrightarrow>
   run (PlusLazy (NoneOf [0x2F]) # CloseGroup g # MatchClass (OneOf [0x2F]) # q) pre st caps rest = None"
proof (induction rest arbitrary: pre)
  case Nil
  show ?case by simp
next
  case (Cons x xs)
  then have "x \<noteq> 0x2F" and "xs = [] \<or> hd xs \<noteq> 0x2F" and "0x2F \<notin> set xs"
    by (cases xs; auto)+
  then have "run (PlusLazy (NoneOf [0x2F]) # CloseGroup g # MatchClass (OneOf [0x2F]) # q)
               pre st caps (x # xs) =
             run (PlusLazy (NoneOf [0x2F]) # CloseGroup g # MatchClass (OneOf [0x2F]) # q)
               (pre @ [x]) st caps xs"
    by (intro plus_lazy_skip)
  also have "\<dots> = None"
    by (rule Cons.IH) fact
  finally show ?case .
qed

lemma run_scope_part:
  "0x2F \<notin> set a \<Longrightarrow>
   run (PlusLazy (NoneOf [0x2F]) # CloseGroup g # MatchClass (OneOf [0x2F]) # q) pre st caps
      (a @ 0x2F # b) =
     (if a = [] then None
      else run q (pre @ a @ [0x2F]) st (caps(g \<mapsto> drop (st g) (pre @ a))) b)"
  (is "_ \<Longrightarrow> run ?P pre st caps _ = _")
proof (induction a arbitrary: pre)
  case Nil
  show ?case by simp
next
  case (Cons x a)
  then have x: "x \<noteq> 0x2F" and a: "0x2F \<notin> set a"
    by auto
  show ?case
  proof (cases a)
    case Nil
    with x show ?thesis by (simp split: option.splits)
  next
    case (Cons y ys)
    with a have y: "y \<noteq> 0x2F" by auto
    have none: "run (CloseGroup g # MatchClass (OneOf [0x2F]) # q) (pre @ [x]) st caps
                  (a @ 0x2F # b) = None"
      using y Cons by simp
    have "run ?P pre st caps ((x # a) @ 0x2F # b) = run ?P (pre @ [x]) st caps (a @ 0x2F # b)"
      using x none by simp
    also have "\<dots> = run q ((pre @ [x]) @ a @ [0x2F]) st
                        (caps(g \<mapsto> drop (st g) ((pre @ [x]) @ a))) b"
      using Cons.IH [OF a, of "pre @ [x]"] Cons by simp
    finally show ?thesis by simp
  qed
qed

lemma run_scopedRegex_Some:
  assumes "scoped_form name s n"
  shows "run scopedRegex [] (\<lambda>_. 0) Map.empty name = Some (name, [1 \<mapsto> s, 2 \<mapsto> n])"
  using assms
  by (simp add: scoped_form_def js_def scopedRegex_def run_scope_part run_name_tail)

lemma run_scopedRegex_None:
  assumes "\<nexists>s n. scoped_form name s n"
  shows "run scopedRegex [] (\<lambda>_. 0) Map.empty name = None"
proof (cases name)
  case Nil
  then show ?thesis by (simp add: scopedRegex_def)
next
  case name: (Cons c r)
  show ?thesis
  proof (cases "c = 0x40 \<and> 0x2F \<in> set r")
    case False
    then show ?thesis
      unfolding name scopedRegex_def by (auto simp: run_scope_none)
  next
    case True
    then obtain a b where r: "r = a @ 0x2F # b" and a: "0x2F \<notin> set a"
      by (auto dest: split_list_first)
    have "a = [] \<or> b = [] \<or> 0x2F \<in> set b"
      using assms True a unfolding name r scoped_form_def js_def by auto
    then show ?thesis
      using True a unfolding name r scopedRegex_def
      by (auto simp: run_scope_part run_name_tail)
  qed
qed

lemma exec_from_later:
  "pre \<noteq> [] \<Longrightarrow> exec_from scopedRegex pre rest = None"
proof (induction rest arbitrary: pre)
  case Nil
  then show ?case by (simp add: scopedRegex_def)
next
  case (Cons x xs)
  have "run scopedRegex pre (\<lambda>_. 0) Map.empty (x # xs) = None"
    using Cons.prems by (simp add: scopedRegex_def)
  moreover have "exec_from scopedRegex (pre @ [x]) xs = None"
    by (rule Cons.IH) simp
  ultimately show ?case by simp
qed

lemma regex_exec_scoped:
  assumes "scoped_form name s n"
  shows "regex_exec scopedRegex name = Some [1 \<mapsto> s, 2 \<mapsto> n, 0 \<mapsto> name]"
proof -
  obtain c r where name: "name = c # r"
    using assms by (cases name) (auto simp: scoped_form_def js_def)
  have "run scopedRegex [] (\<lambda>_. 0) Map.empty (c # r) = Some (c # r, [1 \<mapsto> s, 2 \<mapsto> n])"
    using run_scopedRegex_Some [OF assms] name by simp
  then show ?thesis
    unfolding regex_exec_def name by simp
qed

lemma regex_exec_unscoped:
  "\<nexists>s n. scoped_form name s n \<Longrightarrow> regex_exec scopedRegex name = None"
  by (cases name) (simp_all add: regex_exec_def run_scopedRegex_None exec_from_later)

lemma isScoped_iff: "isScoped name \<longleftrightarrow> (\<exists>s n. scoped_form name s n)"
proof (cases "\<exists>s n. scoped_form name s n")
  case True
  then show ?thesis
    by (auto simp: isScoped_def regex_test_def regex_exec_scoped)
next
  case False
  then show ?thesis
    by (simp add: isScoped_def regex_test_def regex_exec_unscoped)
qed

text \<open>
  C5: \<^verbatim>\<open>isScoped(name)\<close> holds exactly when the name is \<^verbatim>\<open>@\<close>, a scope, \<^verbatim>\<open>/\<close> and
  a name, with scope and name not empty and free of \<^verbatim>\<open>/\<close>. It holds of \<^verbatim>\<open>@a/b\<close> and
  fails of \<^verbatim>\<open>plain-name\<close>, \<^verbatim>\<open>@a/b/c\<close> and \<^verbatim>\<open>@/b\<close>.
\<close>

theorem isScoped_two_segments:
  "(isScoped name \<longleftrightarrow> (\<exists>s n. scoped_form name s n)) \<and>
   isScoped (js ''@a/b'') \<and> \<not> isScoped (js ''plain-name'') \<and>
   \<not> isScoped (js ''@a/b/c'') \<and> \<not> isScoped (js ''@/b'')"
proof (intro conjI)
  show "isScoped name \<longleftrightarrow> (\<exists>s n. scoped_form name s n)"
    by (rule isScoped_iff)
  show "isScoped (js ''@a/b'')"
    by (simp add: isScoped_def regex_test_def regex_exec_def scopedRegex_def js_def)
  show "\<not> isScoped (js ''plain-name'')"
    by (simp add: isScoped_def regex_test_def regex_exec_def scopedRegex_def js_def)
  show "\<not> isScoped (js ''@a/b/c'')"
    by (simp add: isScoped_def regex_test_def regex_exec_def scopedRegex_def js_def)
  show "\<not> isScoped (js ''@/b'')"
    by (simp add: isScoped_def regex_test_def regex_exec_def scopedRegex_def js_def)
qed

theorem isScoped_two_segments_witness:
  "scoped_form (js ''@scope/thing'') (js ''scope'') (js ''thing'') \<and> isScoped (js ''@scope/thing'')"
proof -
  have f: "scoped_form (js ''@scope/thing'') (js ''scope'') (js ''thing'')"
    by (simp add: scoped_form_def js_def)
  then show ?thesis
    using isScoped_two_segments [of "js ''@scope/thing''"] by blast
qed

lemma repoName_scoped: "scoped_form name s n \<Longrightarrow> repoName name = Inr (Some n)"
  using isScoped_iff [of name] by (auto simp: repoName_def regex_exec_scoped)

text \<open>
  C6: \<^verbatim>\<open>repoName(name)\<close> is the second segment of a scoped name and the name itself
  otherwise, and it never throws; \<^verbatim>\<open>repoName("@scope/thing")\<close> and
  \<^verbatim>\<open>repoName("thing")\<close> are both \<^verbatim>\<open>thing\<close>.
\<close>

theorem repoName_second_segment:
  "(isScoped name \<longrightarrow> (\<exists>s n. scoped_form name s n \<and> repoName name = Inr (Some n))) \<and>
   (scoped_form name s n \<longrightarrow> repoName name = Inr (Some n)) \<and>
   (\<not> isScoped name \<longrightarrow> repoName name = Inr (Some name)) \<and>
   repoName (js ''@scope/thing'') = Inr (Some (js ''thing'')) \<and>
   repoName (js ''thing'') = Inr (Some (js ''thing''))"
proof (intro conjI impI)
  assume "isScoped name"
  then obtain s n where "scoped_form name s n"
    using isScoped_iff by blast
  then show "\<exists>s n. scoped_form name s n \<and> repoName name = Inr (Some n)"
    using repoName_scoped by blast
next
  assume "scoped_form name s n"
  then show "repoName name = Inr (Some n)"
    by (rule repoName_scoped)
next
  assume "\<not> isScoped name"
  then show "repoName name = Inr (Some name)"
    by (simp add: repoName_def)
next
  have "scoped_form (js ''@scope/thing'') (js ''scope'') (js ''thing'')"
    by (simp add: scoped_form_def js_def)
  then show "repoName (js ''@scope/thing'') = Inr (Some (js ''thing''))"
    by (rule repoName_scoped)
next
  have "\<not> isScoped (js ''thing'')"
    by (simp add: isScoped_def regex_test_def regex_exec_def scopedRegex_def js_def)
  then show "repoName (js ''thing'') = Inr (Some (js ''thing''))"
    by (simp add: repoName_def)
qed

theorem repoName_second_segment_witness:
  "isScoped (js ''@a/b'') \<and> scoped_form (js ''@a/b'') (js ''a'') (js ''b'') \<and>
   repoName (js ''@a/b'') = Inr (Some (js ''b'')) \<and>
   \<not> isScoped (js ''my-app'') \<and> repoName (js ''my-app'') = Inr (Some (js ''my-app''))"
proof -
  have a: "isScoped (js ''@a/b'')" and f: "scoped_form (js ''@a/b'') (js ''a'') (js ''b'')"
    and m: "\<not> isScoped (js ''my-app'')"
    by (simp_all add: isScoped_def regex_test_def regex_exec_def scopedRegex_def
        scoped_form_def js_def)
  show ?thesis
    using repoName_second_segment [of "js ''@a/b''" "js ''a''" "js ''b''"]
      repoName_second_segment [of "js ''my-app''"] a f m
    by simp
qed

lemma is_slug_unit_plain: "is_slug_unit c \<Longrightarrow> c \<noteq> 0x20 \<and> \<not> (0x41 \<le> c \<and> c \<le> 0x5A)"
  by (auto simp: is_slug_unit_def word_le_nat_alt)

lemma is_slug_plain:
  "is_slug s \<Longrightarrow> list_all (\<lambda>c. c \<noteq> 0x20 \<and> \<not> (0x41 \<le> c \<and> c \<le> 0x5A)) s"
  unfolding is_slug_def list_all_iff using is_slug_unit_plain by blast

lemma not_scoped_my_cool_module: "\<not> isScoped (js ''My Cool Module'')"
  by (simp add: isScoped_def regex_test_def regex_exec_def scopedRegex_def js_def)

lemma example_slugify_is_slug: "is_slug (example_slugify x)"
proof -
  have hyphen: "is_slug_unit 0x2D"
    by (simp add: is_slug_unit_def)
  show ?thesis
    unfolding is_slug_def example_slugify_def list_all_iff
    by (auto simp: Let_def hyphen)
qed

lemma example_slugify_my_cool_module:
  "example_slugify (js ''My Cool Module'') = js ''my-cool-module''"
  by (simp add: example_slugify_def js_def is_slug_unit_def Let_def)

text \<open>
  C7: \<^verbatim>\<open>slugify\<close> returns a scoped name unchanged and hands every other name to
  \<^verbatim>\<open>_s.slugify\<close>, whose slug it returns. So, \<^verbatim>\<open>_s.slugify\<close> returning lowercase
  hyphenated slugs, \<^verbatim>\<open>slugify\<close> of a name that is not scoped is a lowercase hyphenated
  slug and holds no space and no uppercase letter. \<^verbatim>\<open>@scope/Thing_Name\<close> is unchanged,
  and \<^verbatim>\<open>My Cool Module\<close> becomes such a slug, \<^verbatim>\<open>my-cool-module\<close> when that is what
  \<^verbatim>\<open>_s.slugify\<close> gives.
\<close>

theorem slugify_keeps_scoped_names:
  "(isScoped name \<longrightarrow> slugify s_slugify name = name) \<and>
   (scoped_form name s n \<longrightarrow> slugify s_slugify name = name) \<and>
   (\<not> isScoped name \<longrightarrow> slugify s_slugify name = s_slugify name) \<and>
   slugify s_slugify (js ''@scope/Thing_Name'') = js ''@scope/Thing_Name'' \<and>
   slugify s_slugify (js ''My Cool Module'') = s_slugify (js ''My Cool Module'') \<and>
   ((\<forall>x. is_slug (s_slugify x)) \<longrightarrow>
      (\<not> isScoped name \<longrightarrow>
         is_slug (slugify s_slugify name) \<and>
         list_all (\<lambda>c. c \<noteq> 0x20 \<and> \<not> (0x41 \<le> c \<and> c \<le> 0x5A)) (slugify s_slugify name)) \<and>
      is_slug (slugify s_slugify (js ''My Cool Module'')) \<and>
      list_all (\<lambda>c. c \<noteq> 0x20 \<and> \<not> (0x41 \<le> c \<and> c \<le> 0x5A))
        (slugify s_slugify (js ''My Cool Module''))) \<and>
   (s_slugify (js ''My Cool Module'') = js ''my-cool-module'' \<longrightarrow>
      slugify s_slugify (js ''My Cool Module'') = js ''my-cool-module'')"
proof -
  have scoped: "isScoped name \<longrightarrow> slugify s_slugify name = name"
    and unscoped: "\<not> isScoped name \<longrightarrow> slugify s_slugify name = s_slugify name"
    by (simp_all add: slugify_def)
  have form: "scoped_form name s n \<longrightarrow> slugify s_slugify name = name"
    using isScoped_iff [of name] by (auto simp: slugify_def)
  have "scoped_form (js ''@scope/Thing_Name'') (js ''scope'') (js ''Thing_Name'')"
    by (simp add: scoped_form_def js_def)
  then have "isScoped (js ''@scope/Thing_Name'')"
    using isScoped_iff by blast
  then have thing: "slugify s_slugify (js ''@scope/Thing_Name'') = js ''@scope/Thing_Name''"
    by (simp add: slugify_def)
  have cool: "slugify s_slugify (js ''My Cool Module'') = s_slugify (js ''My Cool Module'')"
    by (simp add: slugify_def not_scoped_my_cool_module)
  have slug: "(\<forall>x. is_slug (s_slugify x)) \<longrightarrow>
      (\<not> isScoped name \<longrightarrow>
         is_slug (slugify s_slugify name) \<and>
         list_all (\<lambda>c. c \<noteq> 0x20 \<and> \<not> (0x41 \<le> c \<and> c \<le> 0x5A)) (slugify s_slugify name)) \<and>
      is_slug (slugify s_slugify (js ''My Cool Module'')) \<and>
      list_all (\<lambda>c. c \<noteq> 0x20 \<and> \<not> (0x41 \<le> c \<and> c \<le> 0x5A))
        (slugify s_slugify (js ''My Cool Module''))"
  proof (intro impI conjI)
    assume lib: "\<forall>x. is_slug (s_slugify x)"
    show "is_slug (slugify s_slugify (js ''My Cool Module''))"
      unfolding cool using lib by blast
    then show "list_all (\<lambda>c. c \<noteq> 0x20 \<and> \<not> (0x41 \<le> c \<and> c \<le> 0x5A))
        (slugify s_slugify (js ''My Cool Module''))"
      by (rule is_slug_plain)
    assume "\<not> isScoped name"
    then have eq: "slugify s_slugify name = s_slugify name"
      using unscoped by blast
    show "is_slug (slugify s_slugify name)"
      unfolding eq using lib by blast
    then show "list_all (\<lambda>c. c \<noteq> 0x20 \<and> \<not> (0x41 \<le> c \<and> c \<le> 0x5A)) (slugify s_slugify name)"
      by (rule is_slug_plain)
  qed
  have ex: "s_slugify (js ''My Cool Module'') = js ''my-cool-module'' \<longrightarrow>
      slugify s_slugify (js ''My Cool Module'') = js ''my-cool-module''"
    using cool by simp
  show ?thesis
    using scoped form unscoped thing cool slug ex by blast
qed

theorem slugify_keeps_scoped_names_witness:
  "(\<forall>x. is_slug (example_slugify x)) \<and>
   example_slugify (js ''My Cool Module'') = js ''my-cool-module'' \<and>
   \<not> isScoped (js ''My Cool Module'') \<and>
   slugify example_slugify (js ''My Cool Module'') = js ''my-cool-module'' \<and>
   is_slug (slugify example_slugify (js ''My Cool Module'')) \<and>
   list_all (\<lambda>c. c \<noteq> 0x20 \<and> \<not> (0x41 \<le> c \<and> c \<le> 0x5A))
     (slugify example_slugify (js ''My Cool Module'')) \<and>
   isScoped (js ''@a/b'') \<and> scoped_form (js ''@a/b'') (js ''a'') (js ''b'') \<and>
   slugify example_slugify (js ''@a/b'') = js ''@a/b''"
proof -
  have lib: "\<forall>x. is_slug (example_slugify x)"
    by (simp add: example_slugify_is_slug)
  have a: "isScoped (js ''@a/b'')" and f: "scoped_form (js ''@a/b'') (js ''a'') (js ''b'')"
    by (simp_all add: isScoped_def regex_test_def regex_exec_def scopedRegex_def
        scoped_form_def js_def)
  show ?thesis
    using slugify_keeps_scoped_names [of "js ''My Cool Module''" example_slugify]
      slugify_keeps_scoped_names [of "js ''@a/b''" example_slugify "js ''a''" "js ''b''"]
      lib a f not_scoped_my_cool_module example_slugify_my_cool_module
    by simp
qed

section \<open>Properties of the generator command\<close>

lemma repoName_returns: "\<exists>r. repoName name = Inr r"
  by (auto simp: repoName_def isScoped_def regex_test_def)

lemma not_scoped_my_app: "\<not> isScoped (js ''my-app'')"
  by (simp add: isScoped_def regex_test_def regex_exec_def scopedRegex_def js_def)

lemma repoName_my_app: "repoName (js ''my-app'') = Inr (Some (js ''my-app''))"
  by (simp add: repoName_def not_scoped_my_app)

lemma length_generation_actions:
  "length (generation_actions l target t) = (if tpl_cli t = Some True then 12 else 11)"
  by (simp add: generation_actions_def fixed_actions_def)

lemma templates_of_generation_actions:
  "map templateFile (generation_actions l target t) =
     map (\<lambda>f. js ''./templates/'' @ f)
       ([js ''prettierrc'', js ''gitignore'', js ''travis.yml'', js ''_package.json'',
         js ''_tsconfig.json'', js ''tslint.json'', js ''npmignore'', js ''index.ts'',
         js ''test.ts'', js ''license'', js ''readme.md''] @
        (if tpl_cli t = Some True then [js ''cli.ts''] else []))"
  by (simp add: generation_actions_def fixed_actions_def cli_action_def)

lemma action_unfold:
  assumes "repoName (ans_moduleName answers) = Inr rn"
  shows "action l w options answers g =
     (let t = generation_context l options answers rn (fst (git_name w (user g)))
                (fst (git_email w (snd (git_name w (user g)))));
          target = path_join l (cwd w) (ans_moduleName answers);
          actions = generation_actions l target t;
          g1 = g\<lparr>user := snd (git_email w (snd (git_name w (user g)))),
                 effects := effects g @ [RunActions actions t]\<rparr>
      in case runActions w actions t of
           Some err \<Rightarrow> (Inl err, g1)
         | None \<Rightarrow>
             (Inr (),
              g1\<lparr>effects := effects g @
                   [RunActions actions t, ExecaShell (js ''git init'') target,
                    Log (case execa_shell w (js ''git init'') target of
                           None \<Rightarrow> LogMessage (js ''created an empty git repo inside %s'') target
                         | Some error \<Rightarrow> LogError error)] @
                   (if opt_install options = Some True then [NpmInstall target []] else [])\<rparr>))"
  using assms
  by (simp add: action_def Let_def split_beta generation_context_def split: option.splits)

lemma jane_gen_world_facts:
  "cwd jane_gen_world = js ''/home/jane/work''"
  "runActions jane_gen_world = (\<lambda>a t. None)"
  "execa_shell jane_gen_world = (\<lambda>c d. Some (Thrown (js ''Command failed: git init'')))"
  by (simp_all add: jane_gen_world_def jane_world_def)

lemma jane_gen_identity:
  "fst (git_name jane_gen_world (user initial_gen_state)) = Some (js ''Jane Doe'')"
  "fst (git_email jane_gen_world (user initial_gen_state)) = Some (js ''jane@example.com'')"
  by (simp_all add: git_name_def git_email_def jane_gen_world_def jane_world_def
      initial_gen_state_def initial_user_state_def truthy_def Let_def js_trim_def
      is_js_space_def js_def)

lemma example_answers_facts:
  "ans_moduleName example_answers = js ''my-app''"
  "ans_cli example_answers = Some False"
  "ans_moduleName cli_answers = js ''my-app''"
  "ans_cli cli_answers = Some True"
  "opt_cli example_options = None"
  "opt_install example_options = Some True"
  "effects initial_gen_state = []"
  "s_camelize example_libs (Some (js ''my-app'')) = js ''myApp''"
  "path_join example_libs (js ''/home/jane/work'') (js ''my-app'') = js ''/home/jane/work/my-app''"
  by (simp_all add: example_answers_def cli_answers_def example_options_def
      initial_gen_state_def example_libs_def js_def)

text \<open>
  C1, as stated, fails: the literal list holds eleven actions, so a run with the answer
  \<^verbatim>\<open>cli = false\<close> hands eleven actions to the runner, and one with \<^verbatim>\<open>cli = true\<close>
  twelve.
\<close>

theorem generation_has_eleven_fixed_actions:
  "map_option (tpl_cli \<circ> snd)
     (runner_input (effects (snd (action example_libs jane_gen_world example_options
        example_answers initial_gen_state)))) = Some (Some False) \<and>
   map_option (length \<circ> fst)
     (runner_input (effects (snd (action example_libs jane_gen_world example_options
        example_answers initial_gen_state)))) = Some 11 \<and>
   map_option (length \<circ> fst)
     (runner_input (effects (snd (action example_libs jane_gen_world example_options
        cli_answers initial_gen_state)))) = Some 12"
proof -
  have rn: "repoName (ans_moduleName example_answers) = Inr (Some (js ''my-app''))"
    "repoName (ans_moduleName cli_answers) = Inr (Some (js ''my-app''))"
    by (simp_all add: example_answers_facts repoName_my_app)
  show ?thesis
    unfolding action_unfold [OF rn(1)] action_unfold [OF rn(2)]
    by (simp add: Let_def jane_gen_world_facts example_answers_facts length_generation_actions
        generation_context_def or_answer_def)
qed

text \<open>
  C1, amended: in a run for the module \<^verbatim>\<open>my-app\<close> where Git resolves the name to
  \<^verbatim>\<open>Jane Doe\<close> and the email to \<^verbatim>\<open>jane@example.com\<close>, and \<^verbatim>\<open>_s.camelize\<close> turns
  \<^verbatim>\<open>my-app\<close> into \<^verbatim>\<open>myApp\<close>, the context handed to the action runner has
  \<^verbatim>\<open>repoName = "my-app"\<close>, \<^verbatim>\<open>camelModuleName = "myApp"\<close>, \<^verbatim>\<open>name = "Jane Doe"\<close> and
  \<^verbatim>\<open>email = "jane@example.com"\<close>, and the action list holds the eleven fixed file
  actions when \<^verbatim>\<open>cli\<close> is not true, and these and the CLI entry file, twelve in all,
  when it is true.
\<close>

theorem generation_context_and_actions:
  assumes "ans_moduleName answers = js ''my-app''"
    and "fst (git_name w (user g)) = Some (js ''Jane Doe'')"
    and "fst (git_email w (user g)) = Some (js ''jane@example.com'')"
    and "s_camelize l (Some (js ''my-app'')) = js ''myApp''"
  shows "\<exists>acts t.
     runner_input (drop (length (effects g)) (effects (snd (action l w options answers g)))) =
       Some (acts, t) \<and>
     tpl_repoName t = Some (js ''my-app'') \<and> tpl_camelModuleName t = js ''myApp'' \<and>
     tpl_name t = Some (js ''Jane Doe'') \<and> tpl_email t = Some (js ''jane@example.com'') \<and>
     tpl_cli t = or_answer (opt_cli options) (ans_cli answers) \<and>
     acts = generation_actions l (path_join l (cwd w) (js ''my-app'')) t \<and>
     length acts = (if tpl_cli t = Some True then 12 else 11) \<and>
     map templateFile acts =
       map (\<lambda>f. js ''./templates/'' @ f)
         ([js ''prettierrc'', js ''gitignore'', js ''travis.yml'', js ''_package.json'',
           js ''_tsconfig.json'', js ''tslint.json'', js ''npmignore'', js ''index.ts'',
           js ''test.ts'', js ''license'', js ''readme.md''] @
          (if tpl_cli t = Some True then [js ''cli.ts''] else []))"
proof -
  define t where "t = generation_context l options answers (Some (js ''my-app''))
      (fst (git_name w (user g))) (fst (git_email w (snd (git_name w (user g)))))"
  define acts where "acts = generation_actions l (path_join l (cwd w) (js ''my-app'')) t"
  have rn: "repoName (ans_moduleName answers) = Inr (Some (js ''my-app''))"
    using assms(1) by (simp add: repoName_my_app)
  have email: "fst (git_email w (snd (git_name w (user g)))) = Some (js ''jane@example.com'')"
    using assms(3) git_email_depends_on_entry [of "snd (git_name w (user g))" w "user g"]
    by (simp add: git_name_emailCache)
  have "runner_input (drop (length (effects g)) (effects (snd (action l w options answers g)))) =
          Some (acts, t)"
    unfolding action_unfold [OF rn] t_def acts_def Let_def assms(1)
    by (simp split: option.splits)
  moreover have "tpl_repoName t = Some (js ''my-app'')" "tpl_camelModuleName t = js ''myApp''"
    "tpl_name t = Some (js ''Jane Doe'')" "tpl_email t = Some (js ''jane@example.com'')"
    "tpl_cli t = or_answer (opt_cli options) (ans_cli answers)"
    using assms(2,4) email by (simp_all add: t_def generation_context_def Let_def)
  moreover have "length acts = (if tpl_cli t = Some True then 12 else 11)"
    unfolding acts_def by (rule length_generation_actions)
  moreover have "map templateFile acts =
       map (\<lambda>f. js ''./templates/'' @ f)
         ([js ''prettierrc'', js ''gitignore'', js ''travis.yml'', js ''_package.json'',
           js ''_tsconfig.json'', js ''tslint.json'', js ''npmignore'', js ''index.ts'',
           js ''test.ts'', js ''license'', js ''readme.md''] @
          (if tpl_cli t = Some True then [js ''cli.ts''] else []))"
    unfolding acts_def by (rule templates_of_generation_actions)
  ultimately show ?thesis
    using acts_def by blast
qed

theorem generation_context_and_actions_witness:
  "ans_moduleName example_answers = js ''my-app'' \<and>
   fst (git_name jane_gen_world (user initial_gen_state)) = Some (js ''Jane Doe'') \<and>
   fst (git_email jane_gen_world (user initial_gen_state)) = Some (js ''jane@example.com'') \<and>
   s_camelize example_libs (Some (js ''my-app'')) = js ''myApp'' \<and>
   map_option (tpl_camelModuleName \<circ> snd)
     (runner_input (effects (snd (action example_libs jane_gen_world example_options
        example_answers initial_gen_state)))) = Some (js ''myApp'') \<and>
   map_option (tpl_name \<circ> snd)
     (runner_input (effects (snd (action example_libs jane_gen_world example_options
        example_answers initial_gen_state)))) = Some (Some (js ''Jane Doe'')) \<and>
   map_option (length \<circ> fst)
     (runner_input (effects (snd (action example_libs jane_gen_world example_options
        example_answers initial_gen_state)))) = Some 11"
proof -
  obtain acts t where
    "runner_input (drop (length (effects initial_gen_state))
        (effects (snd (action example_libs jane_gen_world example_options
           example_answers initial_gen_state)))) = Some (acts, t)"
    "tpl_camelModuleName t = js ''myApp''" "tpl_name t = Some (js ''Jane Doe'')"
    "tpl_cli t = or_answer (opt_cli example_options) (ans_cli example_answers)"
    "length acts = (if tpl_cli t = Some True then 12 else 11)"
    using generation_context_and_actions [OF example_answers_facts(1) jane_gen_identity
        example_answers_facts(8), of example_options]
    by blast
  then show ?thesis
    by (simp add: example_answers_facts jane_gen_identity or_answer_def)
qed

text \<open>
  C9: when the action runner succeeds and \<^verbatim>\<open>git init\<close> rejects, the command catches the
  error, logs it and completes normally; the install of the dependencies follows when
  the option \<^verbatim>\<open>install\<close> is true.
\<close>

theorem git_init_failure_is_not_fatal:
  assumes "\<And>acts t. runActions w acts t = None"
    and "execa_shell w (js ''git init'') (path_join l (cwd w) (ans_moduleName answers)) = Some err"
  shows "fst (action l w options answers g) = Inr () \<and>
     (\<exists>acts t. effects (snd (action l w options answers g)) =
        effects g @
        [RunActions acts t,
         ExecaShell (js ''git init'') (path_join l (cwd w) (ans_moduleName answers)),
         Log (LogError err)] @
        (if opt_install options = Some True
         then [NpmInstall (path_join l (cwd w) (ans_moduleName answers)) []] else []))"
proof -
  obtain rn where rn: "repoName (ans_moduleName answers) = Inr rn"
    using repoName_returns by blast
  show ?thesis
    unfolding action_unfold [OF rn] Let_def
    by (simp add: assms)
qed

theorem git_init_failure_is_not_fatal_witness:
  "runActions jane_gen_world = (\<lambda>a t. None) \<and>
   execa_shell jane_gen_world (js ''git init'')
     (path_join example_libs (cwd jane_gen_world) (ans_moduleName example_answers)) =
     Some (Thrown (js ''Command failed: git init'')) \<and>
   opt_install example_options = Some True \<and>
   fst (action example_libs jane_gen_world example_options example_answers initial_gen_state) =
     Inr () \<and>
   drop 1 (effects (snd (action example_libs jane_gen_world example_options example_answers
      initial_gen_state))) =
     [ExecaShell (js ''git init'') (js ''/home/jane/work/my-app''),
      Log (LogError (Thrown (js ''Command failed: git init''))),
      NpmInstall (js ''/home/jane/work/my-app'') []]"
proof -
  have r: "\<And>acts t. runActions jane_gen_world acts t = None"
    by (simp add: jane_gen_world_facts)
  have e: "execa_shell jane_gen_world (js ''git init'')
     (path_join example_libs (cwd jane_gen_world) (ans_moduleName example_answers)) =
     Some (Thrown (js ''Command failed: git init''))"
    by (simp add: jane_gen_world_facts)
  show ?thesis
    using git_init_failure_is_not_fatal [OF r e, of example_options initial_gen_state]
    by (auto simp: jane_gen_world_facts example_answers_facts)
qed

end
